theory Spec2Isabelle
  imports Complex_Main
begin

section \<open>Python values shared by the modules\<close>

text \<open>
  Exceptions are values.  The first four are raised by the interpreter itself,
  \<open>HTTPException\<close> (status code, detail) is raised by the request handler of main.py, and
  \<open>Failure\<close> stands for an exception raised by an external collaborator (the model
  gateway), carrying its message.
\<close>

datatype error =
    IndexError
  | AttributeError
  | ValueError
  | TypeError
  | HTTPException nat string
  | Failure string

text \<open>
  A Python \<open>str\<close> is a \<open>string\<close>; each \<open>char\<close> is read as the code point of the same
  number (0 to 255).  \<open>str.strip()\<close> removes leading and trailing white space; among
  these code points \<open>str.isspace\<close> holds for 9 to 13, 28 to 32, 133 and 160.
\<close>

definition isspace :: "char \<Rightarrow> bool" where
  "isspace c =
     (let n = (of_char c :: nat)
      in (9 \<le> n \<and> n \<le> 13) \<or> (28 \<le> n \<and> n \<le> 32) \<or> n = 133 \<or> n = 160)"

definition strip :: "string \<Rightarrow> string" where
  "strip s = rev (dropWhile isspace (rev (dropWhile isspace s)))"

text \<open>
  Values that may sit in a metadata dictionary or in a content part: strings, and
  everything else that the code only ever compares with a string or calls \<open>strip\<close> on.
\<close>

datatype pyval = PyStr string | PyNone | PyInt int | PyBool bool

text \<open>A dictionary with string keys, in the order of insertion, keys distinct.\<close>

type_synonym 'v dict = "(string \<times> 'v) list"

definition dict_get :: "'v dict \<Rightarrow> string \<Rightarrow> 'v \<Rightarrow> 'v" where
  "dict_get d k dflt = (case map_of d k of None \<Rightarrow> dflt | Some v \<Rightarrow> v)"

section \<open>Messages and the graph state (agent.py)\<close>

datatype msg_type = System | Human | AI | Tool

text \<open>A content block of a message whose content is a list: a bare string or a dictionary.\<close>

datatype part = StrPart string | DictPart "pyval dict"

datatype content = Str string | Parts "part list"

datatype tool_call = ToolCall string string string

text \<open>
  A message as the routing function and the agent node read it: \<open>type\<close>, \<open>content\<close>,
  \<open>tool_calls\<close> (the attribute is absent on messages that are not assistant messages;
  \<open>getattr(..., None)\<close> then gives \<open>None\<close>, which is as false as the empty list, so absence
  is the empty list here) and \<open>response_metadata\<close>.
\<close>

record message =
  type :: msg_type
  content :: content
  tool_calls :: "tool_call list"
  response_metadata :: "pyval dict"

record QuizAgentState =
  messages :: "message list"

text \<open>
  The reducer \<open>add_messages\<close> of the state's only channel.  Every message written by a
  node of this graph is new (the library gives it an identifier of its own), so the
  reducer appends.
\<close>

definition add_messages :: "message list \<Rightarrow> message list \<Rightarrow> message list" where
  "add_messages left right = left @ right"

subsection \<open>Routing\<close>

text \<open>The values \<open>determine_next_step\<close> returns: three node names and the END marker.\<close>

datatype route = Handle_malformed | Tools | Agent | END

definition determine_next_step :: "QuizAgentState \<Rightarrow> error + route" where
  "determine_next_step state =
     (if messages state = [] then Inl IndexError
      else
        let last_message = last (messages state) in
        if (case map_of (response_metadata last_message) ''finish_reason'' of
              None \<Rightarrow> False
            | Some v \<Rightarrow> v = PyStr ''MALFORMED_FUNCTION_CALL'')
        then Inr Handle_malformed
        else if tool_calls last_message \<noteq> [] then Inr Tools
        else
          (case content last_message of
             Str s \<Rightarrow> if strip s = ''END'' then Inr END else Inr Agent
           | Parts [] \<Rightarrow> Inr Agent
           | Parts (StrPart s # rest) \<Rightarrow> Inr Agent
           | Parts (DictPart d # rest) \<Rightarrow>
               (case dict_get d ''text'' (PyStr []) of
                  PyStr t \<Rightarrow> if strip t = ''END'' then Inr END else Inr Agent
                | PyNone \<Rightarrow> Inl AttributeError
                | PyInt i \<Rightarrow> Inl AttributeError
                | PyBool b \<Rightarrow> Inl AttributeError)))"

subsection \<open>The model gateway\<close>

text \<open>
  \<open>language_model.invoke\<close> is a call to an external service.  The gateway is a record of
  how the service answers and of the requests it has received, so that what a node sends
  to the model can be stated.  The rate limiter only delays a call and is left out.
\<close>

record gateway =
  respond :: "message list \<Rightarrow> error + message"
  requests :: "message list list"

definition invoke :: "gateway \<Rightarrow> message list \<Rightarrow> (error + message) \<times> gateway" where
  "invoke language_model msgs =
     (respond language_model msgs,
      language_model\<lparr>requests := requests language_model @ [msgs]\<rparr>)"

subsection \<open>Process-wide state\<close>

text \<open>
  The two dictionaries of \<open>shared_store\<close> and the process environment.  Time stamps are
  real numbers; the rounding of \<open>time.time()\<close> is not part of the model.
\<close>

record process_state =
  url_time :: "string \<rightharpoonup> real"
  BASE64_STORE :: "string \<rightharpoonup> string"
  environ :: "string \<rightharpoonup> string"

definition getenv :: "process_state \<Rightarrow> string \<Rightarrow> string \<Rightarrow> string" where
  "getenv ps k dflt = (case environ ps k of None \<Rightarrow> dflt | Some v \<Rightarrow> v)"

text \<open>\<open>url_time.get(current_url)\<close>, where \<open>current_url\<close> is \<open>None\<close> when the variable is unset.\<close>

definition url_time_get :: "process_state \<Rightarrow> string option \<Rightarrow> real option" where
  "url_time_get ps k = (case k of None \<Rightarrow> None | Some u \<Rightarrow> url_time ps u)"

subsection \<open>The agent node\<close>

definition TOKEN_LIMIT :: nat where
  "TOKEN_LIMIT = 60000"

definition HumanMessage :: "string \<Rightarrow> message" where
  "HumanMessage c = \<lparr>type = Human, content = Str c, tool_calls = [], response_metadata = []\<rparr>"

definition SystemMessage :: "string \<Rightarrow> message" where
  "SystemMessage c = \<lparr>type = System, content = Str c, tool_calls = [], response_metadata = []\<rparr>"

definition timeout_instruction :: string where
  "timeout_instruction =
     CHR 0x0A # ''            You have exceeded the time limit for this task (over 180 seconds).''
     @ CHR 0x0A # ''            Immediately call the `post_request` tool and submit a WRONG answer for the CURRENT quiz.''
     @ CHR 0x0A # ''            ''"

text \<open>
  The condition of line 118, evaluated left to right: \<open>float(time_offset)\<close> is reached
  only when the first disjunct is false and the offset is not the string \<open>"0"\<close>, and it
  raises \<open>ValueError\<close> on a string that is no number (\<open>pyfloat\<close> is Python's \<open>float\<close> on
  strings; infinities and NaN are outside the model).
\<close>

definition timeout_exceeded ::
  "(string \<Rightarrow> real option) \<Rightarrow> real \<Rightarrow> real \<Rightarrow> string \<Rightarrow> error + bool" where
  "timeout_exceeded pyfloat current_time previous_time time_offset =
     (let time_difference = current_time - previous_time in
      if time_difference \<ge> 180 then Inr True
      else if time_offset \<noteq> ''0'' then
        (case pyfloat time_offset of
           None \<Rightarrow> Inl ValueError
         | Some off \<Rightarrow> Inr (current_time - off > 90))
      else Inr False)"

text \<open>\<open>return {"messages": [result]}\<close>; an exception of the gateway leaves the node.\<close>

definition return_result ::
  "(error + message) \<times> gateway \<Rightarrow> (error + message list) \<times> gateway" where
  "return_result r = (case fst r of Inl e \<Rightarrow> (Inl e, snd r) | Inr result \<Rightarrow> (Inr [result], snd r))"

text \<open>
  Lines 134 to 160.  \<open>trim_messages\<close> is the library routine, called with the budget, the
  strategy "last", \<open>include_system\<close>, \<open>start_on="human"\<close> and the model as token counter;
  it returns a new list, so appending the reminder to it leaves the state's list alone.
\<close>

definition invoke_trimmed ::
  "(nat \<Rightarrow> message list \<Rightarrow> message list) \<Rightarrow> process_state \<Rightarrow> gateway \<Rightarrow> QuizAgentState
     \<Rightarrow> (error + message list) \<times> gateway" where
  "invoke_trimmed trim_messages ps language_model state =
     (let trimmed_context = trim_messages TOKEN_LIMIT (messages state);
          has_human_message = list_ex (\<lambda>msg. type msg = Human) trimmed_context;
          trimmed_context =
            (if \<not> has_human_message then
               let current_quiz_url = getenv ps ''url'' ''Unknown URL'';
                   context_reminder =
                     HumanMessage (''Context cleared due to length. Continue processing URL: ''
                                   @ current_quiz_url)
               in trimmed_context @ [context_reminder]
             else trimmed_context)
      in return_result (invoke language_model trimmed_context))"

definition quiz_processing_node ::
  "(nat \<Rightarrow> message list \<Rightarrow> message list) \<Rightarrow> (string \<Rightarrow> real option) \<Rightarrow> process_state \<Rightarrow> real
     \<Rightarrow> gateway \<Rightarrow> QuizAgentState \<Rightarrow> (error + message list) \<times> gateway" where
  "quiz_processing_node trim_messages pyfloat ps current_time language_model state =
     (let current_url = environ ps ''url'';
          previous_time = url_time_get ps current_url;
          time_offset = getenv ps ''offset'' ''0''
      in case previous_time of
           None \<Rightarrow> invoke_trimmed trim_messages ps language_model state
         | Some previous_time \<Rightarrow>
             (case timeout_exceeded pyfloat current_time previous_time time_offset of
                Inl e \<Rightarrow> (Inl e, language_model)
              | Inr True \<Rightarrow>
                  let timeout_message = HumanMessage timeout_instruction
                  in return_result (invoke language_model (messages state @ [timeout_message]))
              | Inr False \<Rightarrow> invoke_trimmed trim_messages ps language_model state))"

subsection \<open>The repair node\<close>


subsection \<open>The run\<close>

text \<open>An unset environment variable is \<open>None\<close>; an f-string prints it as \<open>None\<close>.\<close>

definition format_env :: "string option \<Rightarrow> string" where
  "format_env v = (case v of None \<Rightarrow> ''None'' | Some s \<Rightarrow> s)"

definition QUIZ_SYSTEM_PROMPT :: "string option \<Rightarrow> string option \<Rightarrow> string" where
  "QUIZ_SYSTEM_PROMPT USER_EMAIL USER_SECRET =
     concat (map (\<lambda>l. l @ [CHR 0x0A])
       [[],
        ''You are an autonomous quiz-solving agent.'',
        [],
        ''Your job is to:'',
        ''1. Load each quiz page from the given URL.'',
        ''2. Extract instructions, parameters, and submit endpoint.'',
        ''3. Solve tasks exactly.'',
        ''4. Submit answers ONLY to the correct endpoint.'',
        ''5. Follow new URLs until none remain, then output END.'',
        [],
        ''Rules:'',
        ''- For base64 generation of an image NEVER use your own code, always use the ''
          @ [CHR 0x22] @ ''encode_image_to_base64'' @ [CHR 0x22] @ '' tool that''
          @ [CHR 0x27] @ ''s provided'',
        ''- Never hallucinate URLs or fields.'',
        ''- Never shorten endpoints.'',
        ''- Always inspect server response.'',
        ''- Never stop early.'',
        ''- Use tools for HTML, downloading, rendering, OCR, or running code.'',
        ''- Include:'',
        ''    email = '' @ format_env USER_EMAIL,
        ''    secret = '' @ format_env USER_SECRET])"

definition initial_message_stack :: "string option \<Rightarrow> string option \<Rightarrow> string \<Rightarrow> message list" where
  "initial_message_stack USER_EMAIL USER_SECRET quiz_url =
     [SystemMessage (QUIZ_SYSTEM_PROMPT USER_EMAIL USER_SECRET), HumanMessage quiz_url]"


subsection \<open>The trimming routine\<close>



subsection \<open>Sample collaborators\<close>

text \<open>
  Concrete collaborators for the examples below: a model that always answers with the
  same plain assistant text, a model that always asks for a page to be rendered, a token
  counter that charges one token per four characters of text, a \<open>float\<close> that knows the
  strings \<open>"0"\<close> and \<open>"100"\<close>, a trimming routine that trims nothing and one that keeps
  the first message only.
\<close>

definition AIMessage :: "content \<Rightarrow> tool_call list \<Rightarrow> pyval dict \<Rightarrow> message" where
  "AIMessage c calls meta = \<lparr>type = AI, content = c, tool_calls = calls, response_metadata = meta\<rparr>"

definition sample_model :: gateway where
  "sample_model = \<lparr>respond = (\<lambda>msgs. Inr (AIMessage (Str ''Let me think.'') [] [])), requests = []\<rparr>"



definition sample_float :: "string \<Rightarrow> real option" where
  "sample_float s = (if s = ''0'' then Some 0 else if s = ''100'' then Some 100 else None)"

definition keep_all :: "nat \<Rightarrow> message list \<Rightarrow> message list" where
  "keep_all max_tokens msgs = msgs"

definition keep_first :: "nat \<Rightarrow> message list \<Rightarrow> message list" where
  "keep_first max_tokens msgs = take 1 msgs"

definition sample_process :: process_state where
  "sample_process =
     \<lparr>url_time = Map.empty(''http://x/q1'' \<mapsto> 1000), BASE64_STORE = Map.empty,
      environ = Map.empty(''url'' \<mapsto> ''http://x/q1'', ''offset'' \<mapsto> ''0'')\<rparr>"

section \<open>The HTTP front end (main.py)\<close>

text \<open>What \<open>request.json()\<close> returns: any JSON document, an object being a dictionary.\<close>

datatype json =
    JNull
  | JBool bool
  | JNum real
  | JStr string
  | JArr "json list"
  | JObj "json dict"

text \<open>Python's truth value of a decoded JSON document (\<open>not x\<close> is its negation).\<close>

fun truthy :: "json \<Rightarrow> bool" where
  "truthy JNull = False"
| "truthy (JBool b) = b"
| "truthy (JNum x) = (x \<noteq> 0)"
| "truthy (JStr s) = (s \<noteq> [])"
| "truthy (JArr xs) = (xs \<noteq> [])"
| "truthy (JObj d) = (d \<noteq> [])"

text \<open>
  \<open>provided_secret != AUTH_SECRET\<close>: the configured secret is a string, or \<open>None\<close> when the
  variable is unset; a decoded value equals it only as the same string (or as \<open>null\<close>
  against \<open>None\<close>).
\<close>

fun equals_secret :: "json \<Rightarrow> string option \<Rightarrow> bool" where
  "equals_secret (JStr s) (Some t) = (s = t)"
| "equals_secret JNull None = True"
| "equals_secret v a = False"

datatype response = JSONResponse nat "string dict"

text \<open>
  The handler of \<open>POST /solve\<close>.  \<open>body\<close> is \<open>None\<close> when decoding the request body raises.
  The result is the response or the exception that leaves the handler, the process-wide
  state, and the list of runs handed to \<open>background_tasks\<close> (each by its URL).  Only a
  dictionary has \<open>get\<close>; \<open>os.environ\<close> takes only strings (\<open>TypeError\<close>) without a NUL
  character (\<open>ValueError\<close>).
\<close>

definition process_quiz_request ::
  "string option \<Rightarrow> real \<Rightarrow> json option \<Rightarrow> process_state \<Rightarrow> string list
     \<Rightarrow> (error + response) \<times> process_state \<times> string list" where
  "process_quiz_request AUTH_SECRET now body ps background_tasks =
     (case body of
        None \<Rightarrow> (Inl (HTTPException 400 ''Invalid JSON''), ps, background_tasks)
      | Some request_data \<Rightarrow>
          if \<not> truthy request_data then
            (Inl (HTTPException 400 ''Invalid JSON''), ps, background_tasks)
          else
            (case request_data of
               JObj d \<Rightarrow>
                 let quiz_url = dict_get d ''url'' JNull;
                     provided_secret = dict_get d ''secret'' JNull
                 in if \<not> truthy quiz_url \<or> \<not> truthy provided_secret then
                      (Inl (HTTPException 400 ''Invalid JSON''), ps, background_tasks)
                    else if \<not> equals_secret provided_secret AUTH_SECRET then
                      (Inl (HTTPException 403 ''Invalid secret''), ps, background_tasks)
                    else
                      let ps = ps\<lparr>url_time := Map.empty\<rparr>;
                          ps = ps\<lparr>BASE64_STORE := Map.empty\<rparr>
                      in (case quiz_url of
                            JStr u \<Rightarrow>
                              if CHR 0x00 \<in> set u then (Inl ValueError, ps, background_tasks)
                              else
                                let ps = ps\<lparr>environ := (environ ps)(''url'' \<mapsto> u)\<rparr>;
                                    ps = ps\<lparr>environ := (environ ps)(''offset'' \<mapsto> ''0'')\<rparr>;
                                    ps = ps\<lparr>url_time := (url_time ps)(u \<mapsto> now)\<rparr>
                                in (Inr (JSONResponse 200 [(''status'', ''ok'')]), ps,
                                    background_tasks @ [u])
                          | JNull \<Rightarrow> (Inl TypeError, ps, background_tasks)
                          | JBool b \<Rightarrow> (Inl TypeError, ps, background_tasks)
                          | JNum x \<Rightarrow> (Inl TypeError, ps, background_tasks)
                          | JArr xs \<Rightarrow> (Inl TypeError, ps, background_tasks)
                          | JObj d' \<Rightarrow> (Inl TypeError, ps, background_tasks))
             | JNull \<Rightarrow> (Inl AttributeError, ps, background_tasks)
             | JBool b \<Rightarrow> (Inl AttributeError, ps, background_tasks)
             | JNum x \<Rightarrow> (Inl AttributeError, ps, background_tasks)
             | JStr s \<Rightarrow> (Inl AttributeError, ps, background_tasks)
             | JArr xs \<Rightarrow> (Inl AttributeError, ps, background_tasks)))"

section \<open>The tools (tools/)\<close>

text \<open>
  An exception raised inside a tool body by the network, the file system, the browser or
  the subprocess layer, with the text \<open>str\<close> gives for it.  A tool returns, or an exception
  leaves it: \<open>exn + tool_result\<close>.
\<close>

datatype exn = Exception string

fun str :: "exn \<Rightarrow> string" where
  "str (Exception msg) = msg"

text \<open>
  What the tools return: a plain string, the dictionary of \<open>run_code\<close> (stdout, stderr,
  return_code), the dictionary of \<open>get_rendered_html\<close> (html, images, url), or its
  dictionary with the single key error.
\<close>

datatype tool_result =
    ResultStr string
  | ResultRun string string int
  | ResultPage string "string list" string
  | ResultError string

definition try_except :: "exn + 'a \<Rightarrow> (exn \<Rightarrow> exn + 'a) \<Rightarrow> exn + 'a" where
  "try_except body handler = (case body of Inl e \<Rightarrow> handler e | Inr r \<Rightarrow> Inr r)"

definition and_then :: "exn + 'a \<Rightarrow> ('a \<Rightarrow> exn + 'b) \<Rightarrow> exn + 'b" where
  "and_then m f = (case m of Inl e \<Rightarrow> Inl e | Inr x \<Rightarrow> f x)"

text \<open>
  \<open>run_code\<close>: \<open>write_script\<close> is the creation of the directory and the writing of the file,
  \<open>execute\<close> the start of the subprocess and \<open>communicate()\<close>, giving the two captured
  streams and the exit code.
\<close>

definition run_code ::
  "(string \<Rightarrow> exn + unit) \<Rightarrow> (string \<Rightarrow> exn + string \<times> string \<times> int) \<Rightarrow> string
     \<Rightarrow> exn + tool_result" where
  "run_code write_script execute source_code =
     try_except
       (and_then (write_script source_code) (\<lambda>u.
        and_then (execute source_code) (\<lambda>(std_output, std_error, returncode).
          if length std_output \<ge> 10000 then
            Inr (ResultStr (take 10000 std_output @ ''...truncated due to large size''))
          else if length std_error \<ge> 10000 then
            Inr (ResultStr (take 10000 std_error @ ''...truncated due to large size''))
          else Inr (ResultRun std_output std_error returncode))))
       (\<lambda>execution_error. Inr (ResultRun [] (str execution_error) (- 1)))"

text \<open>\<open>download_file\<close>: \<open>fetch_and_save\<close> is the request, its status check and the writing.\<close>

definition download_file ::
  "(string \<Rightarrow> string \<Rightarrow> exn + unit) \<Rightarrow> string \<Rightarrow> string \<Rightarrow> exn + tool_result" where
  "download_file fetch_and_save source_url target_filename =
     try_except
       (and_then (fetch_and_save source_url target_filename) (\<lambda>u.
          Inr (ResultStr target_filename)))
       (\<lambda>download_error. Inr (ResultStr (''Error downloading file: '' @ str download_error)))"

text \<open>
  \<open>get_rendered_html\<close>: \<open>render\<close> is the browser session giving the page's HTML,
  \<open>image_sources\<close> the parsing of the HTML and the joining of the image addresses.
\<close>

definition get_rendered_html ::
  "(string \<Rightarrow> exn + string) \<Rightarrow> (string \<Rightarrow> string \<Rightarrow> exn + string list) \<Rightarrow> string
     \<Rightarrow> exn + tool_result" where
  "get_rendered_html render image_sources target_url =
     try_except
       (and_then (render target_url) (\<lambda>html_content.
        and_then (image_sources target_url html_content) (\<lambda>image_urls.
          let html_content =
                (if length html_content > 300000
                 then take 300000 html_content @ ''... [TRUNCATED DUE TO SIZE]''
                 else html_content)
          in Inr (ResultPage html_content image_urls target_url))))
       (\<lambda>err. Inr (ResultError (''Error fetching/rendering page: '' @ str err)))"

text \<open>
  Modelled from the spec: the bodies of \<open>post_request\<close>, \<open>add_dependencies\<close>,
  \<open>ocr_image_tool\<close>, \<open>transcribe_audio\<close> and \<open>encode_image_to_base64\<close> are not among the
  sources.  Section 4.4 of the spec says of every capability of the manifest that any
  internal failure is caught and returned as a textual error result rather than
  propagated; \<open>body\<close> is what the capability's own work gives.
\<close>

definition spec_tool :: "exn + tool_result \<Rightarrow> exn + tool_result" where
  "spec_tool body = try_except body (\<lambda>e. Inr (ResultStr (str e)))"

section \<open>Sample inputs\<close>

text \<open>The completion reason the routing function looks for.\<close>

abbreviation (input) malformed :: "message \<Rightarrow> bool" where
  "malformed m \<equiv>
     map_of (response_metadata m) ''finish_reason'' = Some (PyStr ''MALFORMED_FUNCTION_CALL'')"

text \<open>The conversation after the first agent step of a run whose model answered in plain text.\<close>

definition sample_state :: QuizAgentState where
  "sample_state =
     \<lparr>messages = initial_message_stack None None ''http://x/q1''
                   @ [AIMessage (Str ''Let me think.'') [] []]\<rparr>"

text \<open>
  The conversation after the model asked for the task page and the tool node answered with
  a page of 280000 characters.
\<close>

definition sample_page :: message where
  "sample_page =
     \<lparr>type = Tool, content = Str (replicate 280000 (CHR ''x'')), tool_calls = [],
      response_metadata = []\<rparr>"

definition long_state :: QuizAgentState where
  "long_state =
     \<lparr>messages = initial_message_stack None None ''http://x/q1''
                   @ [AIMessage (Str []) [ToolCall ''get_rendered_html'' ''http://x/q1'' ''call_1''] [],
                      sample_page]\<rparr>"

text \<open>A process state in which the start of the active URL is recorded and an offset is set.\<close>

definition sample_offset :: process_state where
  "sample_offset =
     \<lparr>url_time = Map.empty(''http://x/q1'' \<mapsto> 1000), BASE64_STORE = Map.empty,
      environ = Map.empty(''url'' \<mapsto> ''http://x/q1'', ''offset'' \<mapsto> ''100'')\<rparr>"

text \<open>Collaborators of \<open>run_code\<close>: a writable disk, a script that prints 10000 characters.\<close>

definition sample_write :: "string \<Rightarrow> exn + unit" where
  "sample_write source_code = Inr ()"

definition sample_execute :: "string \<Rightarrow> exn + string \<times> string \<times> int" where
  "sample_execute source_code = Inr (replicate 10000 (CHR ''a''), ''warning'', 3)"

text \<open>Collaborators that fail.\<close>

definition failing_write :: "string \<Rightarrow> exn + unit" where
  "failing_write source_code = Inl (Exception ''No space left on device'')"

definition failing_fetch :: "string \<Rightarrow> string \<Rightarrow> exn + unit" where
  "failing_fetch source_url target_filename = Inl (Exception ''404 Client Error'')"

definition failing_render :: "string \<Rightarrow> exn + string" where
  "failing_render target_url = Inl (Exception ''net::ERR_NAME_NOT_RESOLVED'')"

definition no_images :: "string \<Rightarrow> string \<Rightarrow> exn + string list" where
  "no_images target_url html_content = Inr []"

section \<open>Helper facts\<close>

lemma malformed_case:
  "(case map_of md ''finish_reason'' of
      None \<Rightarrow> False
    | Some v \<Rightarrow> v = PyStr ''MALFORMED_FUNCTION_CALL'')
     = (map_of md ''finish_reason'' = Some (PyStr ''MALFORMED_FUNCTION_CALL''))"
  by (cases "map_of md ''finish_reason''") auto

lemma return_result_invoke:
  "return_result (invoke language_model msgs) =
     (case respond language_model msgs of Inl e \<Rightarrow> Inl e | Inr result \<Rightarrow> Inr [result],
      language_model\<lparr>requests := requests language_model @ [msgs]\<rparr>)"
  by (simp add: return_result_def invoke_def split: sum.splits)






section \<open>Routing\<close>

text \<open>
  Claim C1, as amended.  The routing function returns END exactly when the latest message
  has no malformed-call completion reason, carries no tool call, and its content is either
  a plain string that strips to \<open>END\<close> or a list whose first part is a dictionary whose
  \<open>text\<close> entry (the empty string when absent) strips to \<open>END\<close>.  A message without
  malformed-call reason and without tool calls whose content is a plain string that does
  not strip to \<open>END\<close>, an empty list, a list that starts with a bare string, or a list
  whose first part's \<open>text\<close> entry is a string that does not strip to \<open>END\<close>, is routed
  back to the agent node.
\<close>

theorem route_END_iff:
  "(determine_next_step state = Inr END \<longleftrightarrow>
      messages state \<noteq> []
      \<and> \<not> malformed (last (messages state))
      \<and> tool_calls (last (messages state)) = []
      \<and> ((\<exists>s. content (last (messages state)) = Str s \<and> strip s = ''END'')
         \<or> (\<exists>d rest t. content (last (messages state)) = Parts (DictPart d # rest)
              \<and> dict_get d ''text'' (PyStr []) = PyStr t \<and> strip t = ''END'')))
   \<and> (messages state \<noteq> []
      \<and> \<not> malformed (last (messages state))
      \<and> tool_calls (last (messages state)) = []
      \<and> ((\<exists>s. content (last (messages state)) = Str s \<and> strip s \<noteq> ''END'')
         \<or> content (last (messages state)) = Parts []
         \<or> (\<exists>s rest. content (last (messages state)) = Parts (StrPart s # rest))
         \<or> (\<exists>d rest t. content (last (messages state)) = Parts (DictPart d # rest)
              \<and> dict_get d ''text'' (PyStr []) = PyStr t \<and> strip t \<noteq> ''END''))
      \<longrightarrow> determine_next_step state = Inr Agent)"
  by (auto simp add: determine_next_step_def Let_def malformed_case
        split: content.splits list.splits part.splits pyval.splits if_splits)

text \<open>
  Claim C1, witness: a one-part list whose text is \<open>END\<close> between blanks and a newline ends
  the run; a plain sentence leads back to the agent node.
\<close>

theorem route_END_iff_witness:
  "determine_next_step
     \<lparr>messages = [AIMessage (Parts [DictPart [(''type'', PyStr ''text''),
                                            (''text'', PyStr ('' END '' @ [CHR 0x0A]))]]) [] []]\<rparr>
     = Inr END
   \<and> determine_next_step \<lparr>messages = [AIMessage (Str ''Working on it'') [] []]\<rparr> = Inr Agent"
  using
    route_END_iff [of "\<lparr>messages = [AIMessage (Parts [DictPart [(''type'', PyStr ''text''),
                                            (''text'', PyStr ('' END '' @ [CHR 0x0A]))]]) [] []]\<rparr>"]
    route_END_iff [of "\<lparr>messages = [AIMessage (Str ''Working on it'') [] []]\<rparr>"]
  by (simp add: AIMessage_def dict_get_def strip_def isspace_def)

text \<open>
  Claim C1, counterexample to the claim as first stated (END exactly when the text strips
  to \<open>END\<close>): an assistant message whose text is \<open>END\<close> and which also carries a tool call is
  routed to the tool node.
\<close>

theorem END_with_tool_call_routes_to_tools:
  "content (AIMessage (Str ''END'') [ToolCall ''post_request'' ''{}'' ''call_1''] []) = Str ''END''
   \<and> strip ''END'' = ''END''
   \<and> determine_next_step
        \<lparr>messages = [AIMessage (Str ''END'') [ToolCall ''post_request'' ''{}'' ''call_1''] []]\<rparr>
      = Inr Tools"
  by (simp add: determine_next_step_def AIMessage_def strip_def isspace_def)

text \<open>
  Only the first part of a list is read: a message whose parts spell \<open>END and more\<close> ends the
  run, and one whose \<open>END\<close> comes as a bare string does not.
\<close>

lemma first_part_decides:
  "determine_next_step
     \<lparr>messages = [AIMessage (Parts [DictPart [(''text'', PyStr ''END'')],
                                     DictPart [(''text'', PyStr '' and more'')]]) [] []]\<rparr>
     = Inr END
   \<and> determine_next_step \<lparr>messages = [AIMessage (Parts [StrPart ''END'']) [] []]\<rparr> = Inr Agent"
  by (simp add: determine_next_step_def AIMessage_def dict_get_def strip_def isspace_def)

text \<open>
  Claim C4.  A latest message whose completion reason is the malformed-function-call code
  is routed to the repair node, and so neither to the tool node nor to END, whatever tool
  calls or text it carries; a latest message without that reason and with at least one
  tool call is routed to the tool node.
\<close>

theorem malformed_routes_to_repair:
  assumes "messages state \<noteq> []"
  shows "(malformed (last (messages state)) \<longrightarrow>
            determine_next_step state = Inr Handle_malformed
            \<and> determine_next_step state \<noteq> Inr Tools
            \<and> determine_next_step state \<noteq> Inr END)
       \<and> (\<not> malformed (last (messages state)) \<and> tool_calls (last (messages state)) \<noteq> [] \<longrightarrow>
            determine_next_step state = Inr Tools)"
  using assms by (simp add: determine_next_step_def Let_def malformed_case)

text \<open>
  Claim C4, witness: a malformed message that also carries a tool call and the text \<open>END\<close>,
  and a message that stopped normally with a tool call.
\<close>

theorem malformed_routes_to_repair_witness:
  "determine_next_step
     \<lparr>messages = [AIMessage (Str ''END'') [ToolCall ''run_code'' ''{}'' ''call_1'']
                    [(''finish_reason'', PyStr ''MALFORMED_FUNCTION_CALL'')]]\<rparr>
     = Inr Handle_malformed
   \<and> determine_next_step
     \<lparr>messages = [AIMessage (Str []) [ToolCall ''run_code'' ''{}'' ''call_1'']
                    [(''finish_reason'', PyStr ''STOP'')]]\<rparr>
     = Inr Tools"
  using
    malformed_routes_to_repair
      [of "\<lparr>messages = [AIMessage (Str ''END'') [ToolCall ''run_code'' ''{}'' ''call_1'']
                    [(''finish_reason'', PyStr ''MALFORMED_FUNCTION_CALL'')]]\<rparr>"]
    malformed_routes_to_repair
      [of "\<lparr>messages = [AIMessage (Str []) [ToolCall ''run_code'' ''{}'' ''call_1'']
                    [(''finish_reason'', PyStr ''STOP'')]]\<rparr>"]
  by (simp add: AIMessage_def)


section \<open>The agent node\<close>

text \<open>
  Claim C3.  On entry to the agent node, with the start of the active URL on record (the
  elapsed time of condition (a) is measured from it, and without it the check is skipped),
  either overrun condition alone triggers the deadline override: (a) the time elapsed
  since that start is at least 180 seconds, or (b) an offset is set (the variable is not
  the \<open>0\<close> that the front end writes) and lies more than 90 seconds before now.  The node
  then skips the trimming routine (the result is the same for every such routine), adds
  exactly one override instruction, sends the model the full conversation followed by that
  single instruction, and returns the model's answer as the one message to append.
\<close>

theorem deadline_override:
  assumes started: "url_time_get ps (environ ps ''url'') = Some previous_time"
    and overrun:
      "current_time - previous_time \<ge> 180
       \<or> (getenv ps ''offset'' ''0'' \<noteq> ''0''
          \<and> pyfloat (getenv ps ''offset'' ''0'') = Some off
          \<and> current_time - off > 90)"
  shows "quiz_processing_node trim_messages pyfloat ps current_time language_model state =
           (case respond language_model (messages state @ [HumanMessage timeout_instruction]) of
              Inl e \<Rightarrow> Inl e
            | Inr result \<Rightarrow> Inr [result],
            language_model\<lparr>requests := requests language_model
               @ [messages state @ [HumanMessage timeout_instruction]]\<rparr>)"
proof -
  have "timeout_exceeded pyfloat current_time previous_time (getenv ps ''offset'' ''0'')
          = Inr True"
    using overrun by (auto simp add: timeout_exceeded_def Let_def)
  then show ?thesis
    using started by (simp add: quiz_processing_node_def Let_def return_result_invoke)
qed

text \<open>
  Claim C3, witness: 180 seconds after the recorded start with the offset at \<open>0\<close>, and ten
  seconds after the start with an offset 910 seconds old; both times the model receives the
  conversation followed by the override instruction and nothing else.
\<close>

theorem deadline_override_witness:
  "url_time_get sample_process (environ sample_process ''url'') = Some 1000
   \<and> (1180 :: real) - 1000 \<ge> 180
   \<and> requests (snd (quiz_processing_node keep_all sample_float sample_process 1180 sample_model
                       sample_state))
      = [messages sample_state @ [HumanMessage timeout_instruction]]
   \<and> url_time_get sample_offset (environ sample_offset ''url'') = Some 1000
   \<and> (1010 :: real) - 1000 < 180
   \<and> sample_float (getenv sample_offset ''offset'' ''0'') = Some 100
   \<and> requests (snd (quiz_processing_node keep_all sample_float sample_offset 1010 sample_model
                       sample_state))
      = [messages sample_state @ [HumanMessage timeout_instruction]]"
  using
    deadline_override [of sample_process 1000 1180 sample_float 0 keep_all sample_model sample_state]
    deadline_override [of sample_offset 1000 1010 sample_float 100 keep_all sample_model sample_state]
  by (simp add: url_time_get_def getenv_def sample_process_def sample_offset_def sample_float_def
        sample_model_def)

text \<open>
  Claim C5.  On an agent step without deadline overrun (no start recorded for the active
  URL, or less than 180 seconds elapsed and the offset either the string \<open>0\<close> or a number at
  most 90 seconds before now), whatever the trimming routine returns: the model receives
  the trimmed list when it holds a human-authored message and otherwise the trimmed list
  followed by exactly one reminder naming the URL of the environment; the node returns the
  model's answer alone, so the stored conversation after the step is the one before it
  followed by that answer, and the reminder is no part of it.
\<close>

theorem trimming_is_a_view:
  assumes no_overrun:
      "url_time_get ps (environ ps ''url'') = None
       \<or> (\<exists>previous_time. url_time_get ps (environ ps ''url'') = Some previous_time
            \<and> current_time - previous_time < 180
            \<and> (getenv ps ''offset'' ''0'' = ''0''
               \<or> (\<exists>off. pyfloat (getenv ps ''offset'' ''0'') = Some off
                         \<and> current_time - off \<le> 90)))"
    and view:
      "view = (if list_ex (\<lambda>msg. type msg = Human) (trim_messages TOKEN_LIMIT (messages state))
               then trim_messages TOKEN_LIMIT (messages state)
               else trim_messages TOKEN_LIMIT (messages state)
                    @ [HumanMessage (''Context cleared due to length. Continue processing URL: ''
                                     @ getenv ps ''url'' ''Unknown URL'')])"
  shows "quiz_processing_node trim_messages pyfloat ps current_time language_model state =
           (case respond language_model view of
              Inl e \<Rightarrow> Inl e
            | Inr result \<Rightarrow> Inr [result],
            language_model\<lparr>requests := requests language_model @ [view]\<rparr>)
       \<and> (\<forall>update language_model'.
            quiz_processing_node trim_messages pyfloat ps current_time language_model state
              = (Inr update, language_model') \<longrightarrow>
            (\<exists>result. respond language_model view = Inr result
               \<and> add_messages (messages state) update = messages state @ [result]))"
proof -
  have trimmed: "invoke_trimmed trim_messages ps language_model state =
           (case respond language_model view of
              Inl e \<Rightarrow> Inl e
            | Inr result \<Rightarrow> Inr [result],
            language_model\<lparr>requests := requests language_model @ [view]\<rparr>)"
    by (simp add: invoke_trimmed_def Let_def return_result_invoke view)
  have node: "quiz_processing_node trim_messages pyfloat ps current_time language_model state
         = invoke_trimmed trim_messages ps language_model state"
    using no_overrun
    by (auto simp add: quiz_processing_node_def Let_def timeout_exceeded_def)
  show ?thesis
    by (auto simp add: node trimmed add_messages_def split: sum.splits)
qed

text \<open>
  Claim C5, witness: ten seconds into the task, on the long sample conversation.  With a
  routine that trims nothing the model receives the conversation as it is; with a routine
  that keeps the first message only the model receives the system message and the
  reminder.  Both times the node returns the model's answer alone.
\<close>

theorem trimming_is_a_view_witness:
  "url_time_get sample_process (environ sample_process ''url'') = Some 1000
   \<and> (1010 :: real) - 1000 < 180
   \<and> getenv sample_process ''offset'' ''0'' = ''0''
   \<and> quiz_processing_node keep_all sample_float sample_process 1010 sample_model long_state
      = (Inr [AIMessage (Str ''Let me think.'') [] []],
         sample_model\<lparr>requests := [messages long_state]\<rparr>)
   \<and> quiz_processing_node keep_first sample_float sample_process 1010 sample_model long_state
      = (Inr [AIMessage (Str ''Let me think.'') [] []],
         sample_model\<lparr>requests :=
           [[SystemMessage (QUIZ_SYSTEM_PROMPT None None),
             HumanMessage
               ''Context cleared due to length. Continue processing URL: http://x/q1'']]\<rparr>)
   \<and> add_messages (messages long_state) [AIMessage (Str ''Let me think.'') [] []]
      = messages long_state @ [AIMessage (Str ''Let me think.'') [] []]"
proof -
  have started: "url_time_get sample_process (environ sample_process ''url'') = Some 1000"
    and offset: "getenv sample_process ''offset'' ''0'' = ''0''"
    and url: "getenv sample_process ''url'' ''Unknown URL'' = ''http://x/q1''"
    by (simp_all add: url_time_get_def getenv_def sample_process_def)
  have no_overrun:
    "url_time_get sample_process (environ sample_process ''url'') = None
     \<or> (\<exists>previous_time.
           url_time_get sample_process (environ sample_process ''url'') = Some previous_time
           \<and> 1010 - previous_time < 180
           \<and> (getenv sample_process ''offset'' ''0'' = ''0''
              \<or> (\<exists>off. sample_float (getenv sample_process ''offset'' ''0'') = Some off
                        \<and> 1010 - off \<le> 90)))"
    by (simp add: started offset)
  have whole:
    "messages long_state
     = (if list_ex (\<lambda>msg. type msg = Human) (keep_all TOKEN_LIMIT (messages long_state))
        then keep_all TOKEN_LIMIT (messages long_state)
        else keep_all TOKEN_LIMIT (messages long_state)
             @ [HumanMessage (''Context cleared due to length. Continue processing URL: ''
                              @ getenv sample_process ''url'' ''Unknown URL'')])"
    by (simp add: keep_all_def long_state_def initial_message_stack_def HumanMessage_def)
  have first:
    "[SystemMessage (QUIZ_SYSTEM_PROMPT None None),
      HumanMessage ''Context cleared due to length. Continue processing URL: http://x/q1'']
     = (if list_ex (\<lambda>msg. type msg = Human) (keep_first TOKEN_LIMIT (messages long_state))
        then keep_first TOKEN_LIMIT (messages long_state)
        else keep_first TOKEN_LIMIT (messages long_state)
             @ [HumanMessage (''Context cleared due to length. Continue processing URL: ''
                              @ getenv sample_process ''url'' ''Unknown URL'')])"
    by (simp add: keep_first_def long_state_def initial_message_stack_def SystemMessage_def url)
  have node_all:
    "quiz_processing_node keep_all sample_float sample_process 1010 sample_model long_state
      = (Inr [AIMessage (Str ''Let me think.'') [] []],
         sample_model\<lparr>requests := [messages long_state]\<rparr>)"
    using trimming_is_a_view
      [where trim_messages = keep_all and ps = sample_process
         and pyfloat = sample_float and current_time = 1010 and state = long_state
         and language_model = sample_model,
       OF no_overrun whole, THEN conjunct1]
    by (simp add: sample_model_def)
  have node_first:
    "quiz_processing_node keep_first sample_float sample_process 1010 sample_model long_state
      = (Inr [AIMessage (Str ''Let me think.'') [] []],
         sample_model\<lparr>requests :=
           [[SystemMessage (QUIZ_SYSTEM_PROMPT None None),
             HumanMessage
               ''Context cleared due to length. Continue processing URL: http://x/q1'']]\<rparr>)"
    using trimming_is_a_view
      [where trim_messages = keep_first and ps = sample_process
         and pyfloat = sample_float and current_time = 1010 and state = long_state
         and language_model = sample_model,
       OF no_overrun first, THEN conjunct1]
    by (simp add: sample_model_def)
  show ?thesis
    using started offset node_all node_first by (simp add: add_messages_def)
qed




section \<open>The HTTP front end\<close>




text \<open>
  Two inputs outside the amended claim: a body that is valid JSON but no object leaves the
  handler with \<open>AttributeError\<close>, and a URL that is no string leaves it with \<open>TypeError\<close> after
  both stores have been cleared; neither is a 400 and neither schedules a run.
\<close>

lemma non_object_body_raises:
  "process_quiz_request (Some ''s3cret'') 1000 (Some (JArr [JNum 1])) sample_process []
     = (Inl AttributeError, sample_process, [])"
  by (simp add: process_quiz_request_def)

lemma non_string_url_clears_stores:
  "process_quiz_request (Some ''s3cret'') 1000
     (Some (JObj [(''url'', JNum 7), (''secret'', JStr ''s3cret'')])) sample_process []
     = (Inl TypeError,
        sample_process\<lparr>url_time := Map.empty, BASE64_STORE := Map.empty\<rparr>, [])"
  by (simp add: process_quiz_request_def Let_def dict_get_def)

text \<open>
  Claim C10.  A request that is rejected with the 400 or the 403 exception (the only status
  codes the handler raises) leaves the timing store, the base64 cache and the environment
  exactly as they were and adds no background task; wherever the handler changes the state
  or the task list, the body is an object whose \<open>url\<close> and \<open>secret\<close> entries passed the
  presence check and whose secret passed the comparison.
\<close>

theorem rejection_changes_nothing:
  "(fst (process_quiz_request AUTH_SECRET now body ps background_tasks)
        = Inl (HTTPException code detail)
      \<longrightarrow> (code = 400 \<or> code = 403)
          \<and> snd (process_quiz_request AUTH_SECRET now body ps background_tasks)
            = (ps, background_tasks))
   \<and> (snd (process_quiz_request AUTH_SECRET now body ps background_tasks) \<noteq> (ps, background_tasks)
      \<longrightarrow> (\<exists>d. body = Some (JObj d)
             \<and> truthy (dict_get d ''url'' JNull) \<and> truthy (dict_get d ''secret'' JNull)
             \<and> equals_secret (dict_get d ''secret'' JNull) AUTH_SECRET))"
  by (auto simp add: process_quiz_request_def Let_def split: option.splits json.splits if_splits)

text \<open>
  Claim C10, witness: a request with a wrong secret, arriving while a task is under way and
  a run is already scheduled, is rejected with 403 and leaves the state and the task list
  as they were.
\<close>

theorem rejection_changes_nothing_witness:
  "fst (process_quiz_request (Some ''s3cret'') 2000
          (Some (JObj [(''url'', JStr ''http://x/q9''), (''secret'', JStr ''guess'')]))
          sample_offset [''http://x/q1''])
     = Inl (HTTPException 403 ''Invalid secret'')
   \<and> snd (process_quiz_request (Some ''s3cret'') 2000
          (Some (JObj [(''url'', JStr ''http://x/q9''), (''secret'', JStr ''guess'')]))
          sample_offset [''http://x/q1''])
     = (sample_offset, [''http://x/q1''])"
proof -
  have rejected:
    "fst (process_quiz_request (Some ''s3cret'') 2000
          (Some (JObj [(''url'', JStr ''http://x/q9''), (''secret'', JStr ''guess'')]))
          sample_offset [''http://x/q1''])
     = Inl (HTTPException 403 ''Invalid secret'')"
    by (simp add: process_quiz_request_def Let_def dict_get_def)
  from rejection_changes_nothing
         [of "Some ''s3cret''" 2000
             "Some (JObj [(''url'', JStr ''http://x/q9''), (''secret'', JStr ''guess'')])"
             sample_offset "[''http://x/q1'']" 403 "''Invalid secret''", THEN conjunct1]
       rejected
  show ?thesis by blast
qed

section \<open>The tools\<close>

text \<open>
  Claim C8.  For the three tools whose bodies are among the sources and for a tool as the
  spec describes the others: whenever a step inside the body raises, the tool returns a
  result holding the exception's text (in \<open>stderr\<close> with return code -1, after the words
  \<open>Error downloading file\<close>, under the key \<open>error\<close>, or as the text itself), and for every
  behaviour of its collaborators and every argument the tool returns a result and no
  exception leaves it.
\<close>

theorem tool_failure_is_a_result:
  "(write_script source_code = Inl e \<longrightarrow>
      run_code write_script execute source_code = Inr (ResultRun [] (str e) (- 1)))
   \<and> (write_script source_code = Inr () \<and> execute source_code = Inl e \<longrightarrow>
      run_code write_script execute source_code = Inr (ResultRun [] (str e) (- 1)))
   \<and> (fetch_and_save source_url target_filename = Inl e \<longrightarrow>
      download_file fetch_and_save source_url target_filename
        = Inr (ResultStr (''Error downloading file: '' @ str e)))
   \<and> (render target_url = Inl e \<longrightarrow>
      get_rendered_html render image_sources target_url
        = Inr (ResultError (''Error fetching/rendering page: '' @ str e)))
   \<and> (render target_url = Inr html \<and> image_sources target_url html = Inl e \<longrightarrow>
      get_rendered_html render image_sources target_url
        = Inr (ResultError (''Error fetching/rendering page: '' @ str e)))
   \<and> (body = Inl e \<longrightarrow> spec_tool body = Inr (ResultStr (str e)))
   \<and> (\<exists>r. run_code write_script execute source_code = Inr r)
   \<and> (\<exists>r. download_file fetch_and_save source_url target_filename = Inr r)
   \<and> (\<exists>r. get_rendered_html render image_sources target_url = Inr r)
   \<and> (\<exists>r. spec_tool body = Inr r)"
  by (auto simp add: run_code_def download_file_def get_rendered_html_def spec_tool_def
        try_except_def and_then_def Let_def split: sum.splits prod.splits)

text \<open>
  Claim C8, witness: a full disk, a 404 and an unresolvable host each come back as a
  result that holds the error text.
\<close>

theorem tool_failure_is_a_result_witness:
  "run_code failing_write sample_execute ''print(1)''
     = Inr (ResultRun [] ''No space left on device'' (- 1))
   \<and> download_file failing_fetch ''http://x/data.csv'' ''data.csv''
     = Inr (ResultStr ''Error downloading file: 404 Client Error'')
   \<and> get_rendered_html failing_render no_images ''http://nowhere/''
     = Inr (ResultError ''Error fetching/rendering page: net::ERR_NAME_NOT_RESOLVED'')
   \<and> spec_tool (Inl (Exception ''timed out'')) = Inr (ResultStr ''timed out'')"
  using
    tool_failure_is_a_result
      [of failing_write "''print(1)''" "Exception ''No space left on device''" sample_execute
          failing_fetch "''http://x/data.csv''" "''data.csv''"
          failing_render "''http://nowhere/''" no_images "[]" "Inl (Exception ''timed out'')"]
    tool_failure_is_a_result
      [of failing_write "''print(1)''" "Exception ''404 Client Error''" sample_execute
          failing_fetch "''http://x/data.csv''" "''data.csv''"
          failing_render "''http://nowhere/''" no_images "[]" "Inl (Exception ''timed out'')"]
    tool_failure_is_a_result
      [of failing_write "''print(1)''" "Exception ''net::ERR_NAME_NOT_RESOLVED''" sample_execute
          failing_fetch "''http://x/data.csv''" "''data.csv''"
          failing_render "''http://nowhere/''" no_images "[]" "Inl (Exception ''timed out'')"]
    tool_failure_is_a_result
      [of failing_write "''print(1)''" "Exception ''timed out''" sample_execute
          failing_fetch "''http://x/data.csv''" "''data.csv''"
          failing_render "''http://nowhere/''" no_images "[]" "Inl (Exception ''timed out'')"]
  by (simp add: failing_write_def failing_fetch_def failing_render_def)

text \<open>
  Claim C9.  When the script was written and run, with captured streams \<open>std_output\<close> and
  \<open>std_error\<close>: if stdout has at least 10000 characters the result is the plain string of its
  first 10000 characters and the truncation note; failing that, if stderr has at least
  10000 characters the result is the plain string of its first 10000 characters and the
  note; in both cases the exit code and the other stream are not in the result.  The
  dictionary of stdout, stderr and exit code is returned exactly when both streams are
  shorter than 10000 characters.
\<close>

theorem run_code_truncation:
  assumes "write_script source_code = Inr ()"
    and "execute source_code = Inr (std_output, std_error, returncode)"
  shows "(length std_output \<ge> 10000 \<longrightarrow>
            run_code write_script execute source_code
              = Inr (ResultStr (take 10000 std_output @ ''...truncated due to large size'')))
       \<and> (length std_output < 10000 \<and> length std_error \<ge> 10000 \<longrightarrow>
            run_code write_script execute source_code
              = Inr (ResultStr (take 10000 std_error @ ''...truncated due to large size'')))
       \<and> (length std_output < 10000 \<and> length std_error < 10000 \<longrightarrow>
            run_code write_script execute source_code
              = Inr (ResultRun std_output std_error returncode))
       \<and> ((\<exists>out err rc. run_code write_script execute source_code = Inr (ResultRun out err rc))
            \<longleftrightarrow> length std_output < 10000 \<and> length std_error < 10000)"
  using assms
  by (auto simp add: run_code_def try_except_def and_then_def)

text \<open>
  Claim C9, witness: a script that prints 10000 characters, warns on stderr and exits with
  code 3 gives the 10000 characters and the note; the warning and the code are gone.
\<close>

theorem run_code_truncation_witness:
  "sample_write ''print(1)'' = Inr ()
   \<and> sample_execute ''print(1)'' = Inr (replicate 10000 (CHR ''a''), ''warning'', 3)
   \<and> length (replicate 10000 (CHR ''a'')) \<ge> (10000 :: nat)
   \<and> run_code sample_write sample_execute ''print(1)''
       = Inr (ResultStr (replicate 10000 (CHR ''a'') @ ''...truncated due to large size''))"
  using run_code_truncation [of sample_write "''print(1)''" sample_execute
          "replicate 10000 (CHR ''a'')" "''warning''" 3]
  by (simp add: sample_write_def sample_execute_def)

end
